theory Spec2Isabelle
  imports Main "HOL-Library.Word"
begin

section \<open>Exceptions\<close>

text \<open>
  Every \<^verbatim>\<open>raise\<close> of the source is a value \<open>Inl e\<close> of the model. On the websocket side
  these are the exceptions of the socket calls and of \<^verbatim>\<open>list.remove\<close>; the endpoint tells
  \<^verbatim>\<open>WebSocketDisconnect\<close> from the rest and never prints one.
\<close>

datatype ws_exn =
    WebSocketDisconnect
  | RuntimeError string
  | ValueError string

text \<open>
  On the HTTP side: what the \<^verbatim>\<open>supabase\<close> library raises, the \<^verbatim>\<open>TypeError\<close> of an \<^verbatim>\<open>await\<close>
  on something that cannot be awaited, and \<^verbatim>\<open>HTTPException\<close>. All are subclasses of
  \<^verbatim>\<open>Exception\<close>, so \<^verbatim>\<open>except Exception\<close> catches each of them, \<^verbatim>\<open>HTTPException\<close> included.
\<close>

datatype exn =
    APIError string
  | TypeError string
  | HTTPException nat string

definition HTTP_200_OK :: nat where
  "HTTP_200_OK = 200"

definition HTTP_201_CREATED :: nat where
  "HTTP_201_CREATED = 201"

definition HTTP_404_NOT_FOUND :: nat where
  "HTTP_404_NOT_FOUND = 404"

definition HTTP_500_INTERNAL_SERVER_ERROR :: nat where
  "HTTP_500_INTERNAL_SERVER_ERROR = 500"

text \<open>Decimal text of a number, as an f-string prints a status code.\<close>

definition digit :: "nat \<Rightarrow> char" where
  "digit d = ''0123456789'' ! d"

fun str_nat :: "nat \<Rightarrow> string" where
  "str_nat n = (if n < 10 then [digit n] else str_nat (n div 10) @ [digit (n mod 10)])"

declare str_nat.simps [simp del]

text \<open>
  \<^verbatim>\<open>str(e)\<close>, which the f-strings \<^verbatim>\<open>f"Database error: {e}"\<close> interpolate. An
  \<^verbatim>\<open>HTTPException\<close> prints as its status code, a colon and its detail; the others print
  their message.
\<close>

fun str_exn :: "exn \<Rightarrow> string" where
  "str_exn (APIError m) = m"
| "str_exn (TypeError m) = m"
| "str_exn (HTTPException code detail) = str_nat code @ '': '' @ detail"

section \<open>The connection manager\<close>

text \<open>
  A \<^verbatim>\<open>WebSocket\<close> object. Connections compare by object identity, here \<open>ws_id\<close>;
  \<open>path_client_id\<close> is the \<^verbatim>\<open>{client_id}\<close> segment of the path \<^verbatim>\<open>/ws/{client_id}\<close> the
  socket was opened on, which the route hands to \<^verbatim>\<open>websocket_endpoint\<close> as \<^verbatim>\<open>client_id\<close>.
\<close>

record WebSocket =
  ws_id :: nat
  path_client_id :: string

text \<open>
  The peer and the network, which the source reaches through \<^verbatim>\<open>await websocket.accept()\<close>
  and \<^verbatim>\<open>await websocket.send_text(...)\<close>: for each socket, the exception the call raises,
  or \<open>None\<close> when it completes.
\<close>

record transport =
  accept_exc :: "WebSocket \<Rightarrow> ws_exn option"
  send_exc :: "WebSocket \<Rightarrow> ws_exn option"

text \<open>
  \<^verbatim>\<open>ConnectionManager\<close>: its one attribute \<open>active_connections\<close>, a list, and \<open>sent\<close>, the
  trace of the frames that \<^verbatim>\<open>send_text\<close> has written (socket and text, oldest first), which
  is the observable effect of the class.
\<close>

record ConnectionManager =
  active_connections :: "WebSocket list"
  sent :: "(WebSocket \<times> string) list"

type_synonym 'a action = "ConnectionManager \<Rightarrow> (ws_exn + 'a) \<times> ConnectionManager"

definition send_text :: "transport \<Rightarrow> WebSocket \<Rightarrow> string \<Rightarrow> unit action" where
  "send_text t websocket data m =
     (case send_exc t websocket of
        Some e \<Rightarrow> (Inl e, m)
      | None \<Rightarrow> (Inr (), m\<lparr>sent := sent m @ [(websocket, data)]\<rparr>))"

text \<open>\<^verbatim>\<open>connect\<close>: accept the handshake, then append. Nothing is checked before the append.\<close>

definition connect :: "transport \<Rightarrow> WebSocket \<Rightarrow> unit action" where
  "connect t websocket m =
     (case accept_exc t websocket of
        Some e \<Rightarrow> (Inl e, m)
      | None \<Rightarrow> (Inr (), m\<lparr>active_connections := active_connections m @ [websocket]\<rparr>))"

text \<open>
  \<^verbatim>\<open>disconnect\<close>: \<^verbatim>\<open>list.remove\<close> deletes the first occurrence and raises
  \<^verbatim>\<open>ValueError\<close> when there is none.
\<close>

definition disconnect :: "WebSocket \<Rightarrow> unit action" where
  "disconnect websocket m =
     (if websocket \<in> set (active_connections m)
      then (Inr (), m\<lparr>active_connections := remove1 websocket (active_connections m)\<rparr>)
      else (Inl (ValueError ''list.remove(x): x not in list''), m))"

definition send_personal_message :: "transport \<Rightarrow> string \<Rightarrow> WebSocket \<Rightarrow> unit action" where
  "send_personal_message t message websocket m = send_text t websocket message m"

text \<open>
  \<^verbatim>\<open>broadcast\<close>: the \<^verbatim>\<open>for\<close> loop over \<open>active_connections\<close>. There is no \<^verbatim>\<open>try\<close> in the
  loop, so the first send that raises ends it and the exception leaves \<^verbatim>\<open>broadcast\<close>.
  The loop below runs without another coroutine touching the list in between;
  \<open>broadcast_interleaved\<close> further down is the same loop with such interference.
\<close>

fun broadcast_loop :: "transport \<Rightarrow> string \<Rightarrow> WebSocket list \<Rightarrow> unit action" where
  "broadcast_loop t message [] m = (Inr (), m)"
| "broadcast_loop t message (connection # rest) m =
     (case send_text t connection message m of
        (Inl e, m') \<Rightarrow> (Inl e, m')
      | (Inr _, m') \<Rightarrow> broadcast_loop t message rest m')"

definition broadcast :: "transport \<Rightarrow> string \<Rightarrow> unit action" where
  "broadcast t message m = broadcast_loop t message (active_connections m) m"

section \<open>The websocket endpoint\<close>

text \<open>What \<^verbatim>\<open>await websocket.receive_text()\<close> produces: a text frame, or an exception.\<close>

datatype inbound = Text string | Raises ws_exn

text \<open>The body of the \<^verbatim>\<open>while True\<close> loop: receive, echo to the sender, broadcast.\<close>

definition loop_body :: "transport \<Rightarrow> WebSocket \<Rightarrow> string \<Rightarrow> inbound \<Rightarrow> unit action" where
  "loop_body t websocket client_id rx m =
     (case rx of
        Raises e \<Rightarrow> (Inl e, m)
      | Text data \<Rightarrow>
          (case send_personal_message t (''You wrote: '' @ data) websocket m of
             (Inl e, m') \<Rightarrow> (Inl e, m')
           | (Inr _, m') \<Rightarrow>
               broadcast t (''Client #'' @ client_id @ '' says: '' @ data) m'))"

text \<open>The \<^verbatim>\<open>except WebSocketDisconnect\<close> block: remove the socket, then announce.\<close>

definition on_disconnect :: "transport \<Rightarrow> WebSocket \<Rightarrow> string \<Rightarrow> unit action" where
  "on_disconnect t websocket client_id m =
     (case disconnect websocket m of
        (Inl e, m') \<Rightarrow> (Inl e, m')
      | (Inr _, m') \<Rightarrow> broadcast t (''Client #'' @ client_id @ '' left the chat'') m')"

text \<open>
  How a run of the endpoint stands: still in the loop waiting for the next frame, returned
  after the \<^verbatim>\<open>except\<close> block, or ended by an exception nothing caught.
\<close>

datatype progress = Waiting | Returned | Raised ws_exn

text \<open>
  One pass of the loop together with the \<^verbatim>\<open>try\<close> around it: only
  \<^verbatim>\<open>WebSocketDisconnect\<close> is caught, whether it came from the receive or from a send.
\<close>

definition iteration ::
  "transport \<Rightarrow> WebSocket \<Rightarrow> string \<Rightarrow> inbound \<Rightarrow> ConnectionManager \<Rightarrow> progress \<times> ConnectionManager"
where
  "iteration t websocket client_id rx m =
     (case loop_body t websocket client_id rx m of
        (Inr _, m') \<Rightarrow> (Waiting, m')
      | (Inl WebSocketDisconnect, m') \<Rightarrow>
          (case on_disconnect t websocket client_id m' of
             (Inl e, m'') \<Rightarrow> (Raised e, m'')
           | (Inr _, m'') \<Rightarrow> (Returned, m''))
      | (Inl e, m') \<Rightarrow> (Raised e, m'))"

text \<open>
  The loop over the frames a client sends. With no frame left the coroutine is suspended
  in \<^verbatim>\<open>receive_text\<close>.
\<close>

fun receive_loop ::
  "transport \<Rightarrow> WebSocket \<Rightarrow> string \<Rightarrow> inbound list \<Rightarrow> ConnectionManager \<Rightarrow> progress \<times> ConnectionManager"
where
  "receive_loop t websocket client_id [] m = (Waiting, m)"
| "receive_loop t websocket client_id (rx # rxs) m =
     (case iteration t websocket client_id rx m of
        (Waiting, m') \<Rightarrow> receive_loop t websocket client_id rxs m'
      | (p, m') \<Rightarrow> (p, m'))"

text \<open>\<^verbatim>\<open>websocket_endpoint\<close>: \<^verbatim>\<open>connect\<close> is outside the \<^verbatim>\<open>try\<close>.\<close>

definition websocket_endpoint ::
  "transport \<Rightarrow> WebSocket \<Rightarrow> string \<Rightarrow> inbound list \<Rightarrow> ConnectionManager \<Rightarrow> progress \<times> ConnectionManager"
where
  "websocket_endpoint t websocket client_id rxs m =
     (case connect t websocket m of
        (Inl e, m') \<Rightarrow> (Raised e, m')
      | (Inr _, m') \<Rightarrow> receive_loop t websocket client_id rxs m')"

section \<open>Records of the store\<close>

type_synonym UUID = "128 word"

text \<open>A \<^verbatim>\<open>datetime\<close>, as microseconds since the epoch; \<^verbatim>\<open>Any\<close> payloads as their JSON text.\<close>

type_synonym datetime = int

record SessionMetadata =
  session_id :: UUID
  user_id :: string
  start_time :: datetime
  end_time :: "datetime option"
  summary :: "string option"

record EventLog =
  event_id :: UUID
  session_id :: UUID
  timestamp :: datetime
  event_type :: string
  event_data :: string

section \<open>Configuration and the store client\<close>

text \<open>
  What lies outside the process: the environment variables after \<^verbatim>\<open>load_dotenv()\<close>, and,
  for the calls into the \<^verbatim>\<open>supabase\<close> library, the exception each raises (\<open>None\<close> when it
  completes). \<open>single_miss_exc\<close> is what \<^verbatim>\<open>.single().execute()\<close> does when the filter does
  not select exactly one row: it raises that exception, or with \<open>None\<close> answers without data.
\<close>

record backend =
  environ :: "string \<Rightarrow> string option"
  create_client_exc :: "exn option"
  execute_exc :: "exn option"
  single_miss_exc :: "exn option"

text \<open>
  The two clients of the \<^verbatim>\<open>supabase\<close> package, each with the URL and the key it was made
  with: the synchronous \<^verbatim>\<open>Client\<close>, which is what \<^verbatim>\<open>create_client\<close> returns, and the
  \<^verbatim>\<open>AsyncClient\<close> that the annotations of the source name.
\<close>

datatype supabase_client = Client string string | AsyncClient string string

text \<open>Python's \<^verbatim>\<open>not s\<close> on the result of \<^verbatim>\<open>os.getenv\<close>: true for \<^verbatim>\<open>None\<close> and for the empty string.\<close>

fun falsy :: "string option \<Rightarrow> bool" where
  "falsy None = True"
| "falsy (Some s) = (s = [])"

text \<open>
  \<^verbatim>\<open>get_supabase_client\<close>, up to its \<^verbatim>\<open>yield\<close>. The check of the two variables comes before
  the \<^verbatim>\<open>try\<close>; a failure of \<^verbatim>\<open>create_client\<close> is wrapped by the \<^verbatim>\<open>except\<close>. The source calls
  \<^verbatim>\<open>create_client\<close>, without \<^verbatim>\<open>await\<close>, so what it yields is the synchronous client,
  whatever the annotation says. Past the check both variables hold a string, so the last
  branch of the inner \<open>case\<close> is never taken.
\<close>

definition get_supabase_client :: "backend \<Rightarrow> exn + supabase_client" where
  "get_supabase_client b =
     (let supabase_url = environ b ''SUPABASE_URL'';
          supabase_key = environ b ''SUPABASE_KEY''
      in if falsy supabase_url \<or> falsy supabase_key
         then Inl (HTTPException HTTP_500_INTERNAL_SERVER_ERROR
                     ''Supabase credentials not found in environment variables.'')
         else (case create_client_exc b of
                 Some e \<Rightarrow> Inl (HTTPException HTTP_500_INTERNAL_SERVER_ERROR
                                 (''Failed to initialize Supabase client: '' @ str_exn e))
               | None \<Rightarrow> (case (supabase_url, supabase_key) of
                            (Some url, Some key) \<Rightarrow> Inr (Client url key)
                          | _ \<Rightarrow> Inl (HTTPException HTTP_500_INTERNAL_SERVER_ERROR
                                      ''Supabase credentials not found in environment variables.''))))"

text \<open>
  The \<^verbatim>\<open>except\<close> of \<^verbatim>\<open>get_supabase_client\<close> stands around its \<^verbatim>\<open>yield\<close> as well. The generator
  is suspended there while the endpoint runs, and an exception the endpoint raises is
  thrown into it at the \<^verbatim>\<open>yield\<close>: it leaves the dependency wrapped once more.
\<close>

definition thrown_at_yield :: "exn + 'a \<Rightarrow> exn + 'a" where
  "thrown_at_yield r =
     (case r of
        Inl e \<Rightarrow> Inl (HTTPException HTTP_500_INTERNAL_SERVER_ERROR
                      (''Failed to initialize Supabase client: '' @ str_exn e))
      | Inr v \<Rightarrow> Inr v)"

text \<open>
  \<^verbatim>\<open>Depends(get_supabase_client)\<close>: the dependency runs when the request arrives, the
  endpoint runs only if it yields a client, and what the endpoint raises passes through
  the dependency's \<^verbatim>\<open>except\<close>.
\<close>

definition Depends :: "backend \<Rightarrow> (supabase_client \<Rightarrow> exn + 'a) \<Rightarrow> exn + 'a" where
  "Depends b endpoint =
     (case get_supabase_client b of
        Inl e \<Rightarrow> Inl e
      | Inr supabase \<Rightarrow> thrown_at_yield (endpoint supabase))"

section \<open>The store\<close>

text \<open>
  Modelled from the spec: the Persistence Store, the remote service behind the \<^verbatim>\<open>supabase\<close>
  client, which is not part of the source. The spec gives it two tables and the
  operations \<open>insert(table, record)\<close>, answering the stored record or an error, and
  \<open>select(table, filter, order)\<close>, answering a list of records or an error:
  a point lookup by \<open>session_id\<close> on \<open>session_metadata\<close>, and on \<open>event_log\<close> a query by
  \<open>session_id\<close> ordered by \<open>timestamp\<close> ascending.
\<close>

record store =
  session_metadata :: "SessionMetadata list"
  event_log :: "EventLog list"

text \<open>
  Modelled from the spec: \<^verbatim>\<open>table("session_metadata").insert(...).execute()\<close>; the data of
  the response is the list of the rows stored.
\<close>

definition insert_session ::
  "backend \<Rightarrow> SessionMetadata \<Rightarrow> store \<Rightarrow> (exn + SessionMetadata list) \<times> store" where
  "insert_session b row db =
     (case execute_exc b of
        Some e \<Rightarrow> (Inl e, db)
      | None \<Rightarrow> (Inr [row], db\<lparr>session_metadata := session_metadata db @ [row]\<rparr>))"

text \<open>Modelled from the spec: \<^verbatim>\<open>table("event_log").insert(...).execute()\<close>.\<close>

definition insert_event ::
  "backend \<Rightarrow> EventLog \<Rightarrow> store \<Rightarrow> (exn + EventLog list) \<times> store" where
  "insert_event b row db =
     (case execute_exc b of
        Some e \<Rightarrow> (Inl e, db)
      | None \<Rightarrow> (Inr [row], db\<lparr>event_log := event_log db @ [row]\<rparr>))"

text \<open>
  Modelled from the spec:
  \<^verbatim>\<open>table("session_metadata").select("*").eq("session_id", ...).single().execute()\<close>, the point
  lookup. The data is the row when exactly one matches.
\<close>

definition select_session_single ::
  "backend \<Rightarrow> UUID \<Rightarrow> store \<Rightarrow> exn + SessionMetadata option" where
  "select_session_single b sid db =
     (case execute_exc b of
        Some e \<Rightarrow> Inl e
      | None \<Rightarrow>
          (case filter (\<lambda>r. SessionMetadata.session_id r = sid) (session_metadata db) of
             [row] \<Rightarrow> Inr (Some row)
           | _ \<Rightarrow> (case single_miss_exc b of Some e \<Rightarrow> Inl e | None \<Rightarrow> Inr None)))"

text \<open>
  Modelled from the spec:
  \<^verbatim>\<open>table("event_log").select("*").eq("session_id", ...).order("timestamp").execute()\<close>, the
  query by session ordered by timestamp ascending.
\<close>

definition select_events_ordered :: "backend \<Rightarrow> UUID \<Rightarrow> store \<Rightarrow> exn + EventLog list" where
  "select_events_ordered b sid db =
     (case execute_exc b of
        Some e \<Rightarrow> Inl e
      | None \<Rightarrow> Inr (sort_key timestamp (filter (\<lambda>r. EventLog.session_id r = sid) (event_log db))))"

section \<open>The HTTP endpoints\<close>

text \<open>
  \<^verbatim>\<open>await ... .execute()\<close>. On an \<^verbatim>\<open>AsyncClient\<close>, \<^verbatim>\<open>execute()\<close> gives a coroutine and the
  \<^verbatim>\<open>await\<close> runs the request. On the synchronous \<^verbatim>\<open>Client\<close>, \<^verbatim>\<open>execute()\<close> runs the request
  itself and returns the response object, which cannot be awaited: the \<^verbatim>\<open>await\<close> raises
  \<^verbatim>\<open>TypeError\<close>. An exception of the request itself is raised as it is with either client.
\<close>

definition await_execute :: "supabase_client \<Rightarrow> exn + 'a \<Rightarrow> exn + 'a" where
  "await_execute supabase result =
     (case result of
        Inl e \<Rightarrow> Inl e
      | Inr response \<Rightarrow>
          (case supabase of
             AsyncClient _ _ \<Rightarrow> Inr response
           | Client _ _ \<Rightarrow>
               Inl (TypeError ''object APIResponse can't be used in 'await' expression'')))"

text \<open>
  \<^verbatim>\<open>try: ... except Exception as e: raise HTTPException(500, f"Database error: {e}")\<close>, the
  frame around the body of each endpoint. Whatever the body raises is caught, an
  \<^verbatim>\<open>HTTPException\<close> raised inside the \<^verbatim>\<open>try\<close> too.
\<close>

definition except_Exception :: "exn + 'a \<Rightarrow> exn + 'a" where
  "except_Exception body =
     (case body of
        Inl e \<Rightarrow> Inl (HTTPException HTTP_500_INTERNAL_SERVER_ERROR (''Database error: '' @ str_exn e))
      | Inr v \<Rightarrow> Inr v)"

definition create_session ::
  "backend \<Rightarrow> supabase_client \<Rightarrow> SessionMetadata \<Rightarrow> store \<Rightarrow> (exn + SessionMetadata) \<times> store" where
  "create_session b supabase session_data db =
     (case insert_session b session_data db of
        (response, db') \<Rightarrow>
          (except_Exception
             (case await_execute supabase response of
                Inl e \<Rightarrow> Inl e
              | Inr data \<Rightarrow>
                  (case data of
                     row # _ \<Rightarrow> Inr row
                   | [] \<Rightarrow> Inl (HTTPException HTTP_500_INTERNAL_SERVER_ERROR
                                 ''Failed to create session in Supabase.''))),
           db'))"

definition get_session ::
  "backend \<Rightarrow> supabase_client \<Rightarrow> UUID \<Rightarrow> store \<Rightarrow> exn + SessionMetadata" where
  "get_session b supabase sid db =
     except_Exception
       (case await_execute supabase (select_session_single b sid db) of
          Inl e \<Rightarrow> Inl e
        | Inr data \<Rightarrow>
            (case data of
               Some row \<Rightarrow> Inr row
             | None \<Rightarrow> Inl (HTTPException HTTP_404_NOT_FOUND ''Session not found'')))"

definition create_event ::
  "backend \<Rightarrow> supabase_client \<Rightarrow> EventLog \<Rightarrow> store \<Rightarrow> (exn + EventLog) \<times> store" where
  "create_event b supabase event db =
     (case insert_event b event db of
        (response, db') \<Rightarrow>
          (except_Exception
             (case await_execute supabase response of
                Inl e \<Rightarrow> Inl e
              | Inr data \<Rightarrow>
                  (case data of
                     row # _ \<Rightarrow> Inr row
                   | [] \<Rightarrow> Inl (HTTPException HTTP_500_INTERNAL_SERVER_ERROR
                                 ''Failed to create event in Supabase.''))),
           db'))"

definition get_events_for_session ::
  "backend \<Rightarrow> supabase_client \<Rightarrow> UUID \<Rightarrow> store \<Rightarrow> exn + EventLog list" where
  "get_events_for_session b supabase sid db =
     except_Exception
       (case await_execute supabase (select_events_ordered b sid db) of
          Inl e \<Rightarrow> Inl e
        | Inr data \<Rightarrow> (if data \<noteq> [] then Inr data else Inr []))"

text \<open>
  The status line of the response: the route's own code when the endpoint returns, the
  code of an \<^verbatim>\<open>HTTPException\<close>, and 500 for any other exception.
\<close>

definition status_code :: "nat \<Rightarrow> exn + 'a \<Rightarrow> nat" where
  "status_code success r =
     (case r of
        Inr _ \<Rightarrow> success
      | Inl (HTTPException code _) \<Rightarrow> code
      | Inl _ \<Rightarrow> HTTP_500_INTERNAL_SERVER_ERROR)"

section \<open>The application\<close>

text \<open>
  The process holds the global \<open>manager\<close>; \<open>db\<close> is the content of the remote store.
  A request is one of the four HTTP routes, the opening of a socket on
  \<^verbatim>\<open>/ws/{client_id}\<close>, or the next thing \<^verbatim>\<open>receive_text\<close> yields on an open socket.
  The four HTTP routes declare \<^verbatim>\<open>Depends(get_supabase_client)\<close>; the websocket route
  declares no dependency.
\<close>

record server =
  manager :: ConnectionManager
  db :: store

datatype request =
    POST_sessions SessionMetadata
  | GET_session UUID
  | POST_events EventLog
  | GET_session_events UUID
  | WS_open WebSocket
  | WS_receive WebSocket inbound

datatype response =
    Session_response "exn + SessionMetadata"
  | Event_response "exn + EventLog"
  | Events_response "exn + EventLog list"
  | WS_progress progress

definition serve :: "backend \<Rightarrow> transport \<Rightarrow> request \<Rightarrow> server \<Rightarrow> response \<times> server" where
  "serve b t req s =
     (case req of
        POST_sessions session_data \<Rightarrow>
          (case get_supabase_client b of
             Inl e \<Rightarrow> (Session_response (Inl e), s)
           | Inr supabase \<Rightarrow>
               (case create_session b supabase session_data (db s) of
                  (r, db') \<Rightarrow> (Session_response (thrown_at_yield r), s\<lparr>db := db'\<rparr>)))
      | GET_session sid \<Rightarrow>
          (Session_response (Depends b (\<lambda>supabase. get_session b supabase sid (db s))), s)
      | POST_events event \<Rightarrow>
          (case get_supabase_client b of
             Inl e \<Rightarrow> (Event_response (Inl e), s)
           | Inr supabase \<Rightarrow>
               (case create_event b supabase event (db s) of
                  (r, db') \<Rightarrow> (Event_response (thrown_at_yield r), s\<lparr>db := db'\<rparr>)))
      | GET_session_events sid \<Rightarrow>
          (Events_response
             (Depends b (\<lambda>supabase. get_events_for_session b supabase sid (db s))), s)
      | WS_open websocket \<Rightarrow>
          (case connect t websocket (manager s) of
             (Inl e, m') \<Rightarrow> (WS_progress (Raised e), s\<lparr>manager := m'\<rparr>)
           | (Inr _, m') \<Rightarrow> (WS_progress Waiting, s\<lparr>manager := m'\<rparr>))
      | WS_receive websocket rx \<Rightarrow>
          (case iteration t websocket (path_client_id websocket) rx (manager s) of
             (p, m') \<Rightarrow> (WS_progress p, s\<lparr>manager := m'\<rparr>)))"

section \<open>Sequences of joins and leaves\<close>

text \<open>
  A call on the registry made for some connection: \<^verbatim>\<open>connect\<close> at the start of its
  endpoint, \<^verbatim>\<open>disconnect\<close> from its \<^verbatim>\<open>except\<close> block. An exception ends that caller only;
  the manager stays as the call left it and serves the next call.
\<close>

datatype call = Join WebSocket | Leave WebSocket

definition apply_call :: "transport \<Rightarrow> call \<Rightarrow> ConnectionManager \<Rightarrow> ConnectionManager" where
  "apply_call t c m =
     (case c of
        Join websocket \<Rightarrow> snd (connect t websocket m)
      | Leave websocket \<Rightarrow> snd (disconnect websocket m))"

fun run_calls :: "transport \<Rightarrow> call list \<Rightarrow> ConnectionManager \<Rightarrow> ConnectionManager" where
  "run_calls t [] m = m"
| "run_calls t (c # cs) m = run_calls t cs (apply_call t c m)"

text \<open>
  The live set in the spec's words: the connections joined and not yet left. A join whose
  handshake fails adds nothing.
\<close>

fun spec_joined_not_left :: "transport \<Rightarrow> call list \<Rightarrow> WebSocket set \<Rightarrow> WebSocket set" where
  "spec_joined_not_left t [] live = live"
| "spec_joined_not_left t (Join w # cs) live =
     spec_joined_not_left t cs (if accept_exc t w = None then insert w live else live)"
| "spec_joined_not_left t (Leave w # cs) live = spec_joined_not_left t cs (live - {w})"

text \<open>No connection is joined while it is live.\<close>

fun no_rejoin :: "transport \<Rightarrow> call list \<Rightarrow> WebSocket set \<Rightarrow> bool" where
  "no_rejoin t [] live = True"
| "no_rejoin t (Join w # cs) live =
     (w \<notin> live \<and> no_rejoin t cs (if accept_exc t w = None then insert w live else live))"
| "no_rejoin t (Leave w # cs) live = no_rejoin t cs (live - {w})"

section \<open>Broadcast among other coroutines\<close>

text \<open>
  \<^verbatim>\<open>for connection in self.active_connections: await connection.send_text(message)\<close>
  with the other coroutines in view. The \<^verbatim>\<open>for\<close> statement iterates the list object itself:
  its iterator keeps a position \<open>i\<close>, and each round reads the element at \<open>i\<close> of the list
  as it is then, stopping when \<open>i\<close> is no longer below the length. Each \<^verbatim>\<open>await\<close> of a send
  suspends the loop, and the calls of other endpoints on the manager run meanwhile:
  \<open>sched\<close> lists, send by send, the calls that run during that send (none once the list
  is used up).
\<close>

function broadcast_interleaved ::
  "transport \<Rightarrow> string \<Rightarrow> call list list \<Rightarrow> nat \<Rightarrow> unit action" where
  "broadcast_interleaved t message sched i m =
     (if i < length (active_connections m)
      then (case send_text t (active_connections m ! i) message m of
              (Inl e, m') \<Rightarrow> (Inl e, m')
            | (Inr _, m') \<Rightarrow>
                broadcast_interleaved t message (tl sched) (Suc i)
                  (case sched of [] \<Rightarrow> m' | calls # _ \<Rightarrow> run_calls t calls m'))
      else (Inr (), m))"
  by pat_completeness auto
termination
proof (relation "measures [\<lambda>(t, message, sched, i, m). length sched,
                           \<lambda>(t, message, sched, i, m). length (active_connections m) - i]",
       goal_cases)
  case 1
  show ?case by simp
next
  case (2 t message sched i m x1 m' u)
  then show ?case
    by (cases sched) (auto simp: send_text_def split: option.splits)
qed

declare broadcast_interleaved.simps [simp del]

section \<open>Example values\<close>

definition t_up :: transport where
  "t_up = \<lparr>accept_exc = (\<lambda>_. None), send_exc = (\<lambda>_. None)\<rparr>"

text \<open>A network on which every send to socket 2 raises.\<close>

definition t_bob_down :: transport where
  "t_bob_down = \<lparr>accept_exc = (\<lambda>_. None),
                 send_exc = (\<lambda>w. if ws_id w = 2 then Some (RuntimeError ''closed'') else None)\<rparr>"

definition alice :: WebSocket where
  "alice = \<lparr>ws_id = 1, path_client_id = ''alice''\<rparr>"

definition bob :: WebSocket where
  "bob = \<lparr>ws_id = 2, path_client_id = ''bob''\<rparr>"

definition carol :: WebSocket where
  "carol = \<lparr>ws_id = 3, path_client_id = ''carol''\<rparr>"

text \<open>A second connection opened under alice's identifier.\<close>

definition alice_again :: WebSocket where
  "alice_again = \<lparr>ws_id = 4, path_client_id = ''alice''\<rparr>"

definition no_connections :: ConnectionManager where
  "no_connections = \<lparr>active_connections = [], sent = []\<rparr>"

text \<open>A configured backend with a healthy store, and one whose key is not set.\<close>

definition b_ok :: backend where
  "b_ok = \<lparr>environ = [''SUPABASE_URL'' \<mapsto> ''https://db.example'', ''SUPABASE_KEY'' \<mapsto> ''secret''],
           create_client_exc = None, execute_exc = None, single_miss_exc = None\<rparr>"

definition b_unset :: backend where
  "b_unset = \<lparr>environ = [''SUPABASE_URL'' \<mapsto> ''https://db.example''],
              create_client_exc = None, execute_exc = None, single_miss_exc = None\<rparr>"

text \<open>An asynchronous client, as the annotations of the endpoints ask for.\<close>

definition supabase0 :: supabase_client where
  "supabase0 = AsyncClient ''https://db.example'' ''secret''"

definition event :: "nat \<Rightarrow> nat \<Rightarrow> int \<Rightarrow> EventLog" where
  "event eid sid ts =
     \<lparr>event_id = of_nat eid, session_id = of_nat sid, timestamp = ts,
      event_type = ''message'', event_data = ''hi''\<rparr>"

definition db0 :: store where
  "db0 = \<lparr>session_metadata = [],
          event_log = [event 1 1 30, event 2 2 5, event 3 1 10, event 4 1 20]\<rparr>"

definition empty_store :: store where
  "empty_store = \<lparr>session_metadata = [], event_log = []\<rparr>"

section \<open>Broadcast\<close>

lemma broadcast_loop_all_up:
  "\<forall>c\<in>set cs. send_exc t c = None \<Longrightarrow>
   broadcast_loop t msg cs m = (Inr (), m\<lparr>sent := sent m @ map (\<lambda>c. (c, msg)) cs\<rparr>)"
  by (induction cs arbitrary: m) (simp_all add: send_text_def)

lemma broadcast_loop_first_failure:
  "\<forall>x\<in>set pre. send_exc t x = None \<Longrightarrow> send_exc t c = Some e \<Longrightarrow>
   broadcast_loop t msg (pre @ c # post) m =
     (Inl e, m\<lparr>sent := sent m @ map (\<lambda>x. (x, msg)) pre\<rparr>)"
  by (induction pre arbitrary: m) (simp_all add: send_text_def)

lemma broadcast_loop_registry:
  "active_connections (snd (broadcast_loop t msg cs m)) = active_connections m"
  by (induction cs arbitrary: m) (simp_all add: send_text_def split: option.splits)

lemma broadcast_all_up:
  "\<forall>c\<in>set (active_connections m). send_exc t c = None \<Longrightarrow>
   broadcast t msg m =
     (Inr (), m\<lparr>sent := sent m @ map (\<lambda>c. (c, msg)) (active_connections m)\<rparr>)"
  by (simp add: broadcast_def broadcast_loop_all_up)

lemma loop_body_all_up:
  assumes "send_exc t websocket = None"
    and "\<forall>c\<in>set (active_connections m). send_exc t c = None"
  shows "loop_body t websocket client_id (Text data) m =
     (Inr (), m\<lparr>sent := sent m @ (websocket, ''You wrote: '' @ data) #
        map (\<lambda>c. (c, ''Client #'' @ client_id @ '' says: '' @ data)) (active_connections m)\<rparr>)"
  using assms
  by (simp add: loop_body_def send_personal_message_def send_text_def broadcast_all_up)

text \<open>
  Claim C1, as the code has it. \<^verbatim>\<open>broadcast\<close> has no parameter for a connection to leave
  out: when no send fails it delivers the message to every connection of the registry, in
  the order of the list. So the broadcast that follows an inbound message, tagged with
  the sender's identifier, is delivered to the sender too whenever the sender is
  registered.
\<close>

theorem broadcast_includes_sender:
  assumes "\<forall>c\<in>set (active_connections m). send_exc t c = None"
    and "websocket \<in> set (active_connections m)"
  shows "broadcast t message m =
           (Inr (), m\<lparr>sent := sent m @ map (\<lambda>c. (c, message)) (active_connections m)\<rparr>)
         \<and> (websocket, ''Client #'' @ client_id @ '' says: '' @ data)
             \<in> set (sent (snd (loop_body t websocket client_id (Text data) m)))"
proof -
  from assms have up: "send_exc t websocket = None"
    by blast
  show ?thesis
    using assms by (simp add: broadcast_all_up loop_body_all_up [OF up assms(1)])
qed

theorem broadcast_includes_sender_witness:
  "send_exc t_up alice = None \<and> send_exc t_up bob = None
   \<and> alice \<in> set (active_connections \<lparr>active_connections = [alice, bob], sent = []\<rparr>)
   \<and> broadcast t_up ''news'' \<lparr>active_connections = [alice, bob], sent = []\<rparr> =
       (Inr (), \<lparr>active_connections = [alice, bob], sent = [(alice, ''news''), (bob, ''news'')]\<rparr>)
   \<and> (alice, ''Client #alice says: hi'')
       \<in> set (sent (snd (loop_body t_up alice ''alice'' (Text ''hi'')
                            \<lparr>active_connections = [alice, bob], sent = []\<rparr>)))"
  using broadcast_includes_sender
          [of "\<lparr>active_connections = [alice, bob], sent = []\<rparr>" t_up alice
              "''news''" "''alice''" "''hi''"]
  by (simp add: t_up_def)

text \<open>
  Against C1 as stated: alice and bob are connected and alice sends \<open>hi\<close>. After her echo,
  the broadcast tagged with her identifier goes to alice herself, then to bob.
\<close>

theorem sender_excluded_counterexample:
  "sent (snd (loop_body t_up alice ''alice'' (Text ''hi'')
                \<lparr>active_connections = [alice, bob], sent = []\<rparr>))
     = [(alice, ''You wrote: hi''), (alice, ''Client #alice says: hi''),
        (bob, ''Client #alice says: hi'')]"
  by (simp add: loop_body_def send_personal_message_def send_text_def broadcast_def t_up_def)

text \<open>
  Claim C2, as the code has it. A send that raises ends the broadcast there: the
  connections before the failing one in the registry have the message, those after it get
  nothing, the exception reaches the caller of \<^verbatim>\<open>broadcast\<close>, and the registry is as it was
  (the failing connection is not removed).
\<close>

theorem broadcast_stops_at_first_failure:
  assumes "active_connections m = pre @ c # post"
    and "\<forall>x\<in>set pre. send_exc t x = None"
    and "send_exc t c = Some e"
  shows "broadcast t message m = (Inl e, m\<lparr>sent := sent m @ map (\<lambda>x. (x, message)) pre\<rparr>)"
  using assms by (simp add: broadcast_def broadcast_loop_first_failure)

theorem broadcast_stops_at_first_failure_witness:
  "active_connections \<lparr>active_connections = [alice, bob, carol], sent = []\<rparr>
     = [alice] @ bob # [carol]
   \<and> send_exc t_bob_down alice = None
   \<and> send_exc t_bob_down bob = Some (RuntimeError ''closed'')
   \<and> broadcast t_bob_down ''news'' \<lparr>active_connections = [alice, bob, carol], sent = []\<rparr>
       = (Inl (RuntimeError ''closed''),
          \<lparr>active_connections = [alice, bob, carol], sent = [(alice, ''news'')]\<rparr>)"
  using broadcast_stops_at_first_failure
          [of "\<lparr>active_connections = [alice, bob, carol], sent = []\<rparr>"
              "[alice]" bob "[carol]" t_bob_down "RuntimeError ''closed''" "''news''"]
  by (simp add: t_bob_down_def alice_def bob_def)

text \<open>
  Against C2 as stated: bob, alice and carol are connected and the send to bob raises.
  Nothing reaches alice or carol, bob stays registered, and the caller gets the exception.
\<close>

theorem failure_isolation_counterexample:
  "broadcast t_bob_down ''news'' \<lparr>active_connections = [bob, alice, carol], sent = []\<rparr>
     = (Inl (RuntimeError ''closed''), \<lparr>active_connections = [bob, alice, carol], sent = []\<rparr>)"
  by (simp add: broadcast_def send_text_def t_bob_down_def bob_def)

section \<open>Leaving\<close>

lemma on_disconnect_registry:
  "active_connections (snd (on_disconnect t w cid m)) =
     (if w \<in> set (active_connections m) then remove1 w (active_connections m)
      else active_connections m)"
  by (simp add: on_disconnect_def disconnect_def broadcast_def broadcast_loop_registry)

lemma on_disconnect_absent:
  "w \<notin> set (active_connections m) \<Longrightarrow>
   on_disconnect t w cid m = (Inl (ValueError ''list.remove(x): x not in list''), m)"
  by (simp add: on_disconnect_def disconnect_def)

lemma count_le_1_remove1: "count_list xs w \<le> 1 \<Longrightarrow> w \<notin> set (remove1 w xs)"
  by (induction xs) (auto split: if_splits simp: count_list_0_iff)

text \<open>
  Claim C5, as the code has it. Removing a connection that is not in the registry is an
  error: \<^verbatim>\<open>list.remove\<close> raises \<^verbatim>\<open>ValueError\<close>. For a connection that occurs at most once in
  the registry, a second leave right after the first raises before it removes or sends
  anything: the registry and the frames sent are exactly as the first leave left them, so
  no second departure notice goes out.
\<close>

theorem second_leave_raises:
  assumes "count_list (active_connections m) websocket \<le> 1"
  shows "on_disconnect t websocket client_id (snd (on_disconnect t websocket client_id m))
           = (Inl (ValueError ''list.remove(x): x not in list''),
              snd (on_disconnect t websocket client_id m))"
proof (rule on_disconnect_absent)
  show "websocket \<notin> set (active_connections (snd (on_disconnect t websocket client_id m)))"
    using assms by (simp add: on_disconnect_registry count_le_1_remove1)
qed

theorem second_leave_raises_witness:
  "count_list (active_connections \<lparr>active_connections = [alice, bob], sent = []\<rparr>) alice \<le> 1
   \<and> on_disconnect t_up alice ''alice'' \<lparr>active_connections = [alice, bob], sent = []\<rparr>
       = (Inr (), \<lparr>active_connections = [bob], sent = [(bob, ''Client #alice left the chat'')]\<rparr>)
   \<and> on_disconnect t_up alice ''alice''
         \<lparr>active_connections = [bob], sent = [(bob, ''Client #alice left the chat'')]\<rparr>
       = (Inl (ValueError ''list.remove(x): x not in list''),
          \<lparr>active_connections = [bob], sent = [(bob, ''Client #alice left the chat'')]\<rparr>)"
proof -
  have first: "on_disconnect t_up alice ''alice'' \<lparr>active_connections = [alice, bob], sent = []\<rparr>
       = (Inr (), \<lparr>active_connections = [bob], sent = [(bob, ''Client #alice left the chat'')]\<rparr>)"
    by (simp add: on_disconnect_def disconnect_def broadcast_def send_text_def t_up_def)
  have once: "count_list (active_connections \<lparr>active_connections = [alice, bob], sent = []\<rparr>) alice \<le> 1"
    by (simp add: alice_def bob_def)
  from second_leave_raises [OF once, of t_up "''alice''"] first once
  show ?thesis by simp
qed

text \<open>
  Against C5 as stated: alice is the only connection and leaves twice. The second
  \<^verbatim>\<open>disconnect\<close> is an error, not a step without effect.
\<close>

theorem leave_idempotent_counterexample:
  "fst (disconnect alice (snd (disconnect alice \<lparr>active_connections = [alice], sent = []\<rparr>)))
     = Inl (ValueError ''list.remove(x): x not in list'')"
  by (simp add: disconnect_def)

section \<open>The registry after joins and leaves\<close>

lemma run_calls_registry:
  "distinct (active_connections m) \<Longrightarrow> no_rejoin t calls (set (active_connections m)) \<Longrightarrow>
   set (active_connections (run_calls t calls m))
     = spec_joined_not_left t calls (set (active_connections m))
   \<and> distinct (active_connections (run_calls t calls m))"
proof (induction calls arbitrary: m)
  case Nil
  then show ?case by simp
next
  case (Cons c calls)
  show ?case
  proof (cases c)
    case (Join w)
    with Cons.prems have fresh: "w \<notin> set (active_connections m)"
      by simp
    let ?m' = "apply_call t c m"
    have reg: "active_connections ?m' =
        (if accept_exc t w = None then active_connections m @ [w] else active_connections m)"
      using Join by (simp add: apply_call_def connect_def split: option.splits)
    have d: "distinct (active_connections ?m')"
      using Cons.prems(1) fresh reg by simp
    have s: "set (active_connections ?m') =
        (if accept_exc t w = None then insert w (set (active_connections m))
         else set (active_connections m))"
      using reg by simp
    have n: "no_rejoin t calls (set (active_connections ?m'))"
      using Cons.prems(2) Join s by simp
    from Cons.IH [OF d n] show ?thesis
      using Join s by simp
  next
    case (Leave w)
    let ?m' = "apply_call t c m"
    have reg: "active_connections ?m' = remove1 w (active_connections m)"
      using Leave by (simp add: apply_call_def disconnect_def remove1_idem)
    have d: "distinct (active_connections ?m')"
      using Cons.prems(1) reg by simp
    have s: "set (active_connections ?m') = set (active_connections m) - {w}"
      using reg Cons.prems(1) by simp
    have n: "no_rejoin t calls (set (active_connections ?m'))"
      using Cons.prems(2) Leave s by simp
    from Cons.IH [OF d n] show ?thesis
      using Leave s by simp
  qed
qed

text \<open>
  Claim C3, as the code has it. The registry holds connection objects and \<^verbatim>\<open>connect\<close>
  appends without looking at what is there: it never fails because of what is already
  registered, and the client identifier plays no part. For every finite sequence of
  \<^verbatim>\<open>connect\<close> and \<^verbatim>\<open>disconnect\<close> calls in which no connection is joined while it is in
  the registry, the registry after the sequence holds exactly the connections joined and
  not yet left, each once.
\<close>

theorem registry_is_joined_not_left:
  assumes "no_rejoin t calls {}"
  shows "set (active_connections (run_calls t calls no_connections))
           = spec_joined_not_left t calls {}
         \<and> distinct (active_connections (run_calls t calls no_connections))"
  using run_calls_registry [of no_connections t calls] assms
  by (simp add: no_connections_def)

theorem registry_is_joined_not_left_witness:
  "no_rejoin t_up [Join alice, Join bob, Leave alice, Join carol] {}
   \<and> active_connections (run_calls t_up [Join alice, Join bob, Leave alice, Join carol] no_connections)
       = [bob, carol]
   \<and> spec_joined_not_left t_up [Join alice, Join bob, Leave alice, Join carol] {} = {bob, carol}
   \<and> distinct [bob, carol]"
proof -
  have wf: "no_rejoin t_up [Join alice, Join bob, Leave alice, Join carol] {}"
    by (simp add: t_up_def alice_def bob_def carol_def)
  have run: "active_connections
               (run_calls t_up [Join alice, Join bob, Leave alice, Join carol] no_connections)
             = [bob, carol]"
    by (simp add: apply_call_def connect_def disconnect_def no_connections_def t_up_def
        alice_def bob_def)
  from registry_is_joined_not_left [OF wf] wf run show ?thesis
    by simp
qed

text \<open>
  Against C3 as stated: two sockets are opened under the identifier \<open>alice\<close>. The second
  \<^verbatim>\<open>connect\<close> succeeds, and the registry holds two connections with that identifier.
\<close>

theorem duplicate_identifier_counterexample:
  "connect t_up alice_again (run_calls t_up [Join alice] no_connections)
     = (Inr (), \<lparr>active_connections = [alice, alice_again], sent = []\<rparr>)
   \<and> map path_client_id [alice, alice_again] = [''alice'', ''alice'']"
  by (simp add: apply_call_def connect_def no_connections_def t_up_def alice_def alice_again_def)

section \<open>Broadcast while the registry changes\<close>

lemma broadcast_interleaved_quiet:
  "broadcast_interleaved t message [] i m =
     broadcast_loop t message (drop i (active_connections m)) m"
proof (induction "length (active_connections m) - i" arbitrary: i m)
  case 0
  then show ?case by (simp add: broadcast_interleaved.simps)
next
  case (Suc k)
  then have lt: "i < length (active_connections m)"
    by simp
  then have dr: "drop i (active_connections m) =
      active_connections m ! i # drop (Suc i) (active_connections m)"
    by (simp add: Cons_nth_drop_Suc)
  show ?case
  proof (cases "send_exc t (active_connections m ! i)")
    case None
    let ?m' = "m\<lparr>sent := sent m @ [(active_connections m ! i, message)]\<rparr>"
    have "k = length (active_connections ?m') - Suc i"
      using Suc.hyps(2) by simp
    from Suc.hyps(1) [OF this] show ?thesis
      using lt None by (subst broadcast_interleaved.simps) (simp add: dr send_text_def)
  next
    case (Some e)
    then show ?thesis
      using lt by (subst broadcast_interleaved.simps) (simp add: dr send_text_def)
  qed
qed

lemma broadcast_interleaved_step:
  assumes "i < length (active_connections m)"
    and "send_exc t (active_connections m ! i) = None"
  shows "broadcast_interleaved t message (calls # sched) i m =
     broadcast_interleaved t message sched (Suc i)
       (run_calls t calls (m\<lparr>sent := sent m @ [(active_connections m ! i, message)]\<rparr>))"
  using assms by (subst broadcast_interleaved.simps) (simp add: send_text_def)

lemma broadcast_interleaved_quiet_prefix:
  assumes "active_connections m = seen @ pre @ rest"
    and "\<forall>c\<in>set pre. send_exc t c = None"
  shows "broadcast_interleaved t message (replicate (length pre) [] @ sched) (length seen) m =
     broadcast_interleaved t message sched (length seen + length pre)
       (m\<lparr>sent := sent m @ map (\<lambda>c. (c, message)) pre\<rparr>)"
  using assms
proof (induction pre arbitrary: seen m)
  case Nil
  then show ?case by simp
next
  case (Cons p pre)
  let ?m' = "m\<lparr>sent := sent m @ [(p, message)]\<rparr>"
  have at: "active_connections m ! length seen = p"
    using Cons.prems(1) by simp
  have lt: "length seen < length (active_connections m)"
    using Cons.prems(1) by simp
  have up: "send_exc t (active_connections m ! length seen) = None"
    using at Cons.prems(2) by simp
  have reg: "active_connections ?m' = (seen @ [p]) @ pre @ rest"
    using Cons.prems(1) by simp
  have rest_up: "\<forall>c\<in>set pre. send_exc t c = None"
    using Cons.prems(2) by simp
  have "broadcast_interleaved t message (replicate (length (p # pre)) [] @ sched) (length seen) m
      = broadcast_interleaved t message (replicate (length pre) [] @ sched) (Suc (length seen)) ?m'"
    using broadcast_interleaved_step [OF lt up, of message "[]" "replicate (length pre) [] @ sched"] at
    by simp
  also have "\<dots> = broadcast_interleaved t message sched (length (seen @ [p]) + length pre)
       (?m'\<lparr>sent := sent ?m' @ map (\<lambda>c. (c, message)) pre\<rparr>)"
    using Cons.IH [OF reg rest_up] by simp
  finally show ?case by simp
qed

lemma removal_during_send_skips_next:
  assumes reg: "active_connections m = pre @ a # b # post"
    and up: "\<forall>c\<in>set (active_connections m). send_exc t c = None"
    and x: "x \<in> set (pre @ [a])"
  shows "broadcast_interleaved t message (replicate (length pre) [] @ [ [Leave x] ]) 0 m =
     (Inr (), m\<lparr>active_connections := remove1 x (pre @ [a]) @ b # post,
               sent := sent m @ map (\<lambda>c. (c, message)) (pre @ a # post)\<rparr>)"
proof -
  let ?m1 = "m\<lparr>sent := sent m @ map (\<lambda>c. (c, message)) pre\<rparr>"
  let ?m2 = "?m1\<lparr>sent := sent ?m1 @ [(a, message)]\<rparr>"
  let ?m3 = "?m2\<lparr>active_connections := remove1 x (pre @ [a]) @ b # post\<rparr>"
  have pre_up: "\<forall>c\<in>set pre. send_exc t c = None" and a_up: "send_exc t a = None"
    and post_up: "\<forall>c\<in>set post. send_exc t c = None"
    using reg up by simp_all
  have reg0: "active_connections m = [] @ pre @ (a # b # post)"
    using reg by simp
  have "broadcast_interleaved t message (replicate (length pre) [] @ [ [Leave x] ]) 0 m
      = broadcast_interleaved t message [ [Leave x] ] (length pre) ?m1"
    using broadcast_interleaved_quiet_prefix [OF reg0 pre_up, of message "[ [Leave x] ]"] by simp
  also have "\<dots> = broadcast_interleaved t message [] (Suc (length pre)) (run_calls t [Leave x] ?m2)"
    using broadcast_interleaved_step [of "length pre" ?m1 t message "[Leave x]" "[]"] reg a_up
    by simp
  also have "run_calls t [Leave x] ?m2 = ?m3"
  proof -
    have "x \<in> set (active_connections ?m2)"
      using x reg by auto
    moreover have "remove1 x (active_connections ?m2) = remove1 x (pre @ [a]) @ b # post"
      using x reg remove1_append [of x "pre @ [a]" "b # post"] by simp
    ultimately show ?thesis
      by (simp add: apply_call_def disconnect_def)
  qed
  also have "broadcast_interleaved t message [] (Suc (length pre)) ?m3
      = broadcast_loop t message post ?m3"
  proof -
    have "length (remove1 x (pre @ [a])) = length pre"
      using x by (simp add: length_remove1)
    then have "drop (Suc (length pre)) (active_connections ?m3) = post"
      by simp
    then show ?thesis by (simp add: broadcast_interleaved_quiet)
  qed
  also have "\<dots> = (Inr (), ?m3\<lparr>sent := sent ?m3 @ map (\<lambda>c. (c, message)) post\<rparr>)"
    using post_up by (rule broadcast_loop_all_up)
  finally show ?thesis by simp
qed

text \<open>
  Claim C7, as the code has it. \<^verbatim>\<open>broadcast\<close> takes no snapshot and the manager has no
  lock: the loop walks the live list \<open>active_connections\<close> by position. With no other call
  on the manager during its sends, it is the loop over the list as it stood at the start.
  A \<^verbatim>\<open>disconnect\<close> that runs during a send, of a connection at or before the one being
  sent to, shifts the rest of the list one place down under the loop, and the connection
  that came next is skipped although it stays registered.
\<close>

theorem broadcast_walks_live_list:
  assumes "active_connections m = pre @ a # b # post"
    and "\<forall>c\<in>set (active_connections m). send_exc t c = None"
    and "x \<in> set (pre @ [a])"
  shows "broadcast_interleaved t message [] 0 m = broadcast t message m
         \<and> broadcast_interleaved t message (replicate (length pre) [] @ [ [Leave x] ]) 0 m =
             (Inr (), m\<lparr>active_connections := remove1 x (pre @ [a]) @ b # post,
                       sent := sent m @ map (\<lambda>c. (c, message)) (pre @ a # post)\<rparr>)"
  using removal_during_send_skips_next [OF assms]
  by (simp add: broadcast_interleaved_quiet broadcast_def)

theorem broadcast_walks_live_list_witness:
  "active_connections \<lparr>active_connections = [alice, bob, carol], sent = []\<rparr>
     = [] @ alice # bob # [carol]
   \<and> send_exc t_up alice = None \<and> send_exc t_up bob = None \<and> send_exc t_up carol = None
   \<and> alice \<in> set ([] @ [alice])
   \<and> broadcast_interleaved t_up ''news'' [] 0 \<lparr>active_connections = [alice, bob, carol], sent = []\<rparr>
       = broadcast t_up ''news'' \<lparr>active_connections = [alice, bob, carol], sent = []\<rparr>
   \<and> broadcast_interleaved t_up ''news'' [ [Leave alice] ] 0
         \<lparr>active_connections = [alice, bob, carol], sent = []\<rparr>
       = (Inr (), \<lparr>active_connections = [bob, carol],
                   sent = [(alice, ''news''), (carol, ''news'')]\<rparr>)"
  using broadcast_walks_live_list
          [of "\<lparr>active_connections = [alice, bob, carol], sent = []\<rparr>" "[]" alice bob "[carol]"
              t_up alice "''news''"]
  by (simp add: t_up_def)

text \<open>
  Against C7 as stated: alice, bob and carol are connected; during the send to bob, alice's
  endpoint runs \<^verbatim>\<open>disconnect\<close>. The list under the loop becomes bob, carol, the loop's
  position 2 is past its end, and carol, registered throughout, gets nothing.
\<close>

theorem snapshot_counterexample:
  "broadcast_interleaved t_up ''news'' [ [], [Leave alice] ] 0
      \<lparr>active_connections = [alice, bob, carol], sent = []\<rparr>
     = (Inr (), \<lparr>active_connections = [bob, carol],
                 sent = [(alice, ''news''), (bob, ''news'')]\<rparr>)"
  by (simp add: broadcast_interleaved.simps send_text_def apply_call_def disconnect_def
      t_up_def alice_def bob_def carol_def)

section \<open>An inbound message\<close>

lemma iteration_all_up:
  assumes "send_exc t websocket = None"
    and "\<forall>c\<in>set (active_connections m). send_exc t c = None"
  shows "iteration t websocket client_id (Text data) m =
     (Waiting, m\<lparr>sent := sent m @ (websocket, ''You wrote: '' @ data) #
        map (\<lambda>c. (c, ''Client #'' @ client_id @ '' says: '' @ data)) (active_connections m)\<rparr>)"
  by (simp add: iteration_def loop_body_all_up [OF assms])

text \<open>
  Claim C6, as the code has it. For an inbound message \<open>data\<close> on the socket of client X,
  when no send fails, two effects occur in this order: X alone receives the echo
  \<open>You wrote: data\<close>; then every connection in the registry, X included, receives
  \<open>Client #X says: data\<close>. No event is recorded: the handler makes no call to the store,
  whose content stays as it was, and the endpoint goes on waiting for the next frame.
\<close>

theorem inbound_message_effects:
  assumes "send_exc t websocket = None"
    and "\<forall>c\<in>set (active_connections (manager s)). send_exc t c = None"
  shows "serve b t (WS_receive websocket (Text data)) s =
     (WS_progress Waiting,
      s\<lparr>manager := (manager s)\<lparr>sent := sent (manager s) @
          (websocket, ''You wrote: '' @ data) #
          map (\<lambda>c. (c, ''Client #'' @ path_client_id websocket @ '' says: '' @ data))
            (active_connections (manager s))\<rparr>\<rparr>)"
  by (simp add: serve_def iteration_all_up [OF assms])

theorem inbound_message_effects_witness:
  "send_exc t_up alice = None
   \<and> send_exc t_up bob = None
   \<and> serve b_ok t_up (WS_receive alice (Text ''hi''))
        \<lparr>manager = \<lparr>active_connections = [bob, alice], sent = []\<rparr>, db = db0\<rparr>
     = (WS_progress Waiting,
        \<lparr>manager = \<lparr>active_connections = [bob, alice],
                     sent = [(alice, ''You wrote: hi''), (bob, ''Client #alice says: hi''),
                             (alice, ''Client #alice says: hi'')]\<rparr>,
         db = db0\<rparr>)"
  using inbound_message_effects
          [of t_up alice "\<lparr>manager = \<lparr>active_connections = [bob, alice], sent = []\<rparr>, db = db0\<rparr>"
              b_ok "''hi''"]
  by (simp add: t_up_def alice_def)

text \<open>
  Against C6 as stated: alice and bob are connected, the store is empty, and alice sends
  \<open>hi\<close>. Afterwards the event log is still empty, alice has received the broadcast as well
  as her echo, and the text bob receives is \<open>Client #alice says: hi\<close>.
\<close>

theorem three_effects_counterexample:
  "serve b_ok t_up (WS_receive alice (Text ''hi''))
     \<lparr>manager = \<lparr>active_connections = [alice, bob], sent = []\<rparr>, db = empty_store\<rparr>
   = (WS_progress Waiting,
      \<lparr>manager = \<lparr>active_connections = [alice, bob],
                   sent = [(alice, ''You wrote: hi''), (alice, ''Client #alice says: hi''),
                           (bob, ''Client #alice says: hi'')]\<rparr>,
       db = \<lparr>session_metadata = [], event_log = []\<rparr>\<rparr>)"
  by (simp add: serve_def iteration_def loop_body_def send_personal_message_def send_text_def
      broadcast_def t_up_def alice_def empty_store_def)

section \<open>Looking up a session\<close>

lemma get_session_never_404:
  "status_code HTTP_200_OK (get_session b supabase sid st) \<noteq> HTTP_404_NOT_FOUND"
  by (simp add: get_session_def except_Exception_def status_code_def HTTP_200_OK_def
      HTTP_404_NOT_FOUND_def HTTP_500_INTERNAL_SERVER_ERROR_def
      split: sum.splits option.splits)

lemma get_session_miss:
  "filter (\<lambda>r. SessionMetadata.session_id r = sid) (session_metadata st) = [] \<Longrightarrow>
   status_code HTTP_200_OK (get_session b supabase sid st) = HTTP_500_INTERNAL_SERVER_ERROR"
  by (simp add: get_session_def select_session_single_def await_execute_def
      except_Exception_def status_code_def split: sum.splits option.splits supabase_client.splits)

lemma thrown_at_yield_status:
  "status_code ok (thrown_at_yield r) = (case r of Inl e \<Rightarrow> HTTP_500_INTERNAL_SERVER_ERROR | Inr v \<Rightarrow> ok)"
  by (simp add: thrown_at_yield_def status_code_def split: sum.splits)

text \<open>
  Claim C4 at a failing input: the store is healthy and holds no session, and session 1 is
  looked up. Where the store answers the miss without data, the endpoint raises the 404
  inside its own \<^verbatim>\<open>try\<close>, and \<^verbatim>\<open>except Exception\<close> turns it into a 500 whose detail quotes
  the 404. Where the store raises on the miss, that exception becomes a 500 as well. And
  the route as a whole, with the client that \<^verbatim>\<open>get_supabase_client\<close> yields, answers 500.
\<close>

theorem get_session_miss_is_500:
  "get_session b_ok supabase0 1 empty_store
     = Inl (HTTPException 500 ''Database error: 404: Session not found'')
   \<and> get_session (b_ok\<lparr>single_miss_exc := Some (APIError ''no rows'')\<rparr>) supabase0 1 empty_store
     = Inl (HTTPException 500 ''Database error: no rows'')
   \<and> status_code HTTP_200_OK
         (Depends b_ok (\<lambda>supabase. get_session b_ok supabase 1 empty_store)) = 500"
proof -
  have async: "get_session b_ok supabase0 1 empty_store
      = Inl (HTTPException 500 ''Database error: 404: Session not found'')"
    by (simp add: get_session_def select_session_single_def await_execute_def
        except_Exception_def b_ok_def supabase0_def empty_store_def HTTP_404_NOT_FOUND_def
        HTTP_500_INTERNAL_SERVER_ERROR_def str_nat.simps digit_def)
  have raising: "get_session (b_ok\<lparr>single_miss_exc := Some (APIError ''no rows'')\<rparr>) supabase0 1
        empty_store
      = Inl (HTTPException 500 ''Database error: no rows'')"
    by (simp add: get_session_def select_session_single_def await_execute_def
        except_Exception_def b_ok_def supabase0_def empty_store_def
        HTTP_500_INTERNAL_SERVER_ERROR_def)
  have client: "get_supabase_client b_ok = Inr (Client ''https://db.example'' ''secret'')"
    by (simp add: get_supabase_client_def b_ok_def)
  have route: "status_code HTTP_200_OK
      (Depends b_ok (\<lambda>supabase. get_session b_ok supabase 1 empty_store)) = 500"
    unfolding Depends_def client
    by (simp add: thrown_at_yield_status get_session_def
        select_session_single_def await_execute_def except_Exception_def b_ok_def
        empty_store_def HTTP_500_INTERNAL_SERVER_ERROR_def)
  from async raising route show ?thesis
    by simp
qed

section \<open>The events of a session\<close>

lemma get_events_for_session_async:
  "execute_exc b = None \<Longrightarrow>
   get_events_for_session b (AsyncClient url key) sid st =
     Inr (sort_key timestamp (filter (\<lambda>r. EventLog.session_id r = sid) (event_log st)))"
  by (cases "sort_key timestamp (filter (\<lambda>r. EventLog.session_id r = sid) (event_log st)) = []")
     (simp_all add: get_events_for_session_def select_events_ordered_def await_execute_def
        except_Exception_def)

lemma get_events_for_session_sync:
  "\<exists>detail. get_events_for_session b (Client url key) sid st =
     Inl (HTTPException HTTP_500_INTERNAL_SERVER_ERROR detail)"
  by (simp add: get_events_for_session_def select_events_ordered_def await_execute_def
      except_Exception_def split: option.splits)

lemma events_route_never_returns:
  "Depends b (\<lambda>supabase. get_events_for_session b supabase sid st) \<noteq> Inr evs"
proof (cases "get_supabase_client b")
  case (Inl e)
  then show ?thesis by (simp add: Depends_def)
next
  case (Inr supabase)
  then obtain url key where "supabase = Client url key"
    by (auto simp: get_supabase_client_def Let_def split: if_splits option.splits)
  with Inr get_events_for_session_sync [of b url key sid st] show ?thesis
    by (auto simp: Depends_def thrown_at_yield_def)
qed

text \<open>
  Claim C8 at a failing input: both credentials are set, the store is healthy and holds
  three events of session 1, out of order. \<^verbatim>\<open>get_supabase_client\<close> yields the synchronous
  client; its \<^verbatim>\<open>execute()\<close> runs the ordered query, and the \<^verbatim>\<open>await\<close> on the response
  raises \<^verbatim>\<open>TypeError\<close>, which \<^verbatim>\<open>except Exception\<close> turns into a 500. The route returns no
  events, sorted or not.
\<close>

theorem events_route_answers_500:
  "get_supabase_client b_ok = Inr (Client ''https://db.example'' ''secret'')
   \<and> execute_exc b_ok = None
   \<and> map timestamp (filter (\<lambda>e. EventLog.session_id e = 1) (event_log db0)) = [30, 10, 20]
   \<and> status_code HTTP_200_OK
         (Depends b_ok (\<lambda>supabase. get_events_for_session b_ok supabase 1 db0)) = 500
   \<and> fst (serve b_ok t_up (GET_session_events 1) \<lparr>manager = no_connections, db = db0\<rparr>)
       = Events_response (Depends b_ok (\<lambda>supabase. get_events_for_session b_ok supabase 1 db0))"
proof -
  have client: "get_supabase_client b_ok = Inr (Client ''https://db.example'' ''secret'')"
    by (simp add: get_supabase_client_def b_ok_def)
  have healthy: "execute_exc b_ok = None"
    by (simp add: b_ok_def)
  have stored: "map timestamp (filter (\<lambda>e. EventLog.session_id e = 1) (event_log db0))
      = [30, 10, 20]"
    by (simp add: db0_def event_def)
  have route: "status_code HTTP_200_OK
      (Depends b_ok (\<lambda>supabase. get_events_for_session b_ok supabase 1 db0)) = 500"
    unfolding Depends_def client
    by (simp add: thrown_at_yield_status get_events_for_session_def
        select_events_ordered_def await_execute_def except_Exception_def healthy
        HTTP_500_INTERNAL_SERVER_ERROR_def)
  have served: "fst (serve b_ok t_up (GET_session_events 1) \<lparr>manager = no_connections, db = db0\<rparr>)
      = Events_response (Depends b_ok (\<lambda>supabase. get_events_for_session b_ok supabase 1 db0))"
    by (simp add: serve_def)
  from client healthy stored route served show ?thesis
    by simp
qed

text \<open>
  Claim C10 at a failing input: both credentials are set, the store is healthy, and
  session 7 has no recorded event. The query finds no row, and the \<^verbatim>\<open>await\<close> on the
  synchronous client's response raises \<^verbatim>\<open>TypeError\<close> before the endpoint looks at the data:
  the route answers 500, not the empty list.
\<close>

theorem empty_events_route_answers_500:
  "filter (\<lambda>e. EventLog.session_id e = 7) (event_log db0) = []
   \<and> status_code HTTP_200_OK
         (Depends b_ok (\<lambda>supabase. get_events_for_session b_ok supabase 7 db0)) = 500
   \<and> fst (serve b_ok t_up (GET_session_events 7) \<lparr>manager = no_connections, db = db0\<rparr>)
       \<noteq> Events_response (Inr [])"
proof -
  have client: "get_supabase_client b_ok = Inr (Client ''https://db.example'' ''secret'')"
    by (simp add: get_supabase_client_def b_ok_def)
  have none: "filter (\<lambda>e. EventLog.session_id e = 7) (event_log db0) = []"
    by (simp add: db0_def event_def)
  have route: "status_code HTTP_200_OK
      (Depends b_ok (\<lambda>supabase. get_events_for_session b_ok supabase 7 db0)) = 500"
    unfolding Depends_def client
    by (simp add: thrown_at_yield_status get_events_for_session_def
        select_events_ordered_def await_execute_def except_Exception_def b_ok_def
        HTTP_500_INTERNAL_SERVER_ERROR_def)
  have served: "fst (serve b_ok t_up (GET_session_events 7) \<lparr>manager = no_connections, db = db0\<rparr>)
      \<noteq> Events_response (Inr [])"
    by (simp add: serve_def events_route_never_returns)
  from none route served show ?thesis
    by simp
qed

section \<open>A store that is not configured\<close>

lemma get_supabase_client_unset:
  "falsy (environ b ''SUPABASE_URL'') \<or> falsy (environ b ''SUPABASE_KEY'') \<Longrightarrow>
   get_supabase_client b =
     Inl (HTTPException HTTP_500_INTERNAL_SERVER_ERROR
            ''Supabase credentials not found in environment variables.'')"
  by (auto simp add: get_supabase_client_def Let_def)

text \<open>
  Claim C9. When the store's URL or its key is unset or empty, each of the four
  store-backed routes fails when it is called, with a 500 that names the missing
  credentials, and leaves the server as it was. The websocket routes never read the
  configuration: opening a socket and handling a frame give the same result under any
  other backend, a configured one included.
\<close>

theorem store_misconfigured:
  assumes "falsy (environ b ''SUPABASE_URL'') \<or> falsy (environ b ''SUPABASE_KEY'')"
  shows "serve b t (POST_sessions new_session) s =
           (Session_response (Inl (HTTPException 500
              ''Supabase credentials not found in environment variables.'')), s)
       \<and> serve b t (GET_session sid) s =
           (Session_response (Inl (HTTPException 500
              ''Supabase credentials not found in environment variables.'')), s)
       \<and> serve b t (POST_events new_event) s =
           (Event_response (Inl (HTTPException 500
              ''Supabase credentials not found in environment variables.'')), s)
       \<and> serve b t (GET_session_events sid) s =
           (Events_response (Inl (HTTPException 500
              ''Supabase credentials not found in environment variables.'')), s)
       \<and> serve b t (WS_open websocket) s = serve b' t (WS_open websocket) s
       \<and> serve b t (WS_receive websocket rx) s = serve b' t (WS_receive websocket rx) s"
  using assms
  by (simp add: serve_def Depends_def get_supabase_client_unset
      HTTP_500_INTERNAL_SERVER_ERROR_def)

theorem store_misconfigured_witness:
  "(falsy (environ b_unset ''SUPABASE_URL'') \<or> falsy (environ b_unset ''SUPABASE_KEY''))
   \<and> serve b_unset t_up (GET_session_events 1) \<lparr>manager = no_connections, db = db0\<rparr>
       = (Events_response (Inl (HTTPException 500
            ''Supabase credentials not found in environment variables.'')),
          \<lparr>manager = no_connections, db = db0\<rparr>)
   \<and> serve b_unset t_up (WS_open alice) \<lparr>manager = no_connections, db = db0\<rparr>
       = serve b_ok t_up (WS_open alice) \<lparr>manager = no_connections, db = db0\<rparr>
   \<and> serve b_unset t_up (WS_open alice) \<lparr>manager = no_connections, db = db0\<rparr>
       = (WS_progress Waiting,
          \<lparr>manager = \<lparr>active_connections = [alice], sent = []\<rparr>, db = db0\<rparr>)"
proof -
  have unset: "falsy (environ b_unset ''SUPABASE_URL'') \<or> falsy (environ b_unset ''SUPABASE_KEY'')"
    by (simp add: b_unset_def)
  have opened: "serve b_unset t_up (WS_open alice) \<lparr>manager = no_connections, db = db0\<rparr>
       = (WS_progress Waiting,
          \<lparr>manager = \<lparr>active_connections = [alice], sent = []\<rparr>, db = db0\<rparr>)"
    by (simp add: serve_def connect_def t_up_def no_connections_def)
  from store_misconfigured [OF unset, of t_up _ "\<lparr>manager = no_connections, db = db0\<rparr>" 1 _ alice b_ok]
    unset opened
  show ?thesis by simp
qed

end
